theory Spec2Isabelle
  imports Main "HOL-Library.Word"
begin

unbundle bit_operations_syntax

section \<open>Errors and numbers\<close>

text \<open>
  The error classes of \<^verbatim>\<open>Types\<close>: \<^verbatim>\<open>MongoConnectionError\<close> and
  \<^verbatim>\<open>SessionValidationError\<close> carry a message and an optional original error.
  \<open>DriverError\<close> stands for every exception that is not one of the package's own
  classes (a store failure, a \<^verbatim>\<open>TypeError\<close>, a \<^verbatim>\<open>SyntaxError\<close>).
\<close>

datatype error =
    DriverError string
  | MongoConnectionError string "error option"
  | SessionValidationError string "error option"

text \<open>
  A JavaScript number as far as this package uses one: an integer or \<^verbatim>\<open>NaN\<close>.
  Fractions and infinities are not modelled.
\<close>

datatype jsnum = NaN | Num int

type_synonym byte = "8 word"

subsection \<open>Decimal printing, as template literals print an integer\<close>

definition digit_char :: "nat \<Rightarrow> char" where
  "digit_char n = ''0123456789'' ! (n mod 10)"

function show_nat :: "nat \<Rightarrow> string" where
  "show_nat n = (if n < 10 then [digit_char n] else show_nat (n div 10) @ [digit_char (n mod 10)])"
  by pat_completeness auto
termination
  by (relation "measure (\<lambda>n. n)") auto

declare show_nat.simps [simp del]

definition show_int :: "int \<Rightarrow> string" where
  "show_int i = (if i < 0 then ''-'' @ show_nat (nat (- i)) else show_nat (nat i))"

section \<open>Validation utilities\<close>

text \<open>
  \<^verbatim>\<open>ValidationUtils.isValidSessionId\<close>: the regular expression
  \<^verbatim>\<open>/^[a-zA-Z0-9_-]{1,100}$/\<close>; the empty string is rejected before the test.
  \<^verbatim>\<open>ValidationUtils.isValidCollectionName\<close>: \<^verbatim>\<open>/^[a-zA-Z0-9_-]{1,120}$/\<close> and
  not starting with \<^verbatim>\<open>system.\<close>.
\<close>

definition identifier_chars :: string where
  "identifier_chars =
     ''abcdefghijklmnopqrstuvwxyzABCDEFGHIJKLMNOPQRSTUVWXYZ0123456789_-''"

definition isValidSessionId :: "string \<Rightarrow> bool" where
  "isValidSessionId s \<longleftrightarrow>
     s \<noteq> [] \<and> 1 \<le> length s \<and> length s \<le> 100 \<and> list_all (\<lambda>c. c \<in> set identifier_chars) s"

definition startsWith :: "string \<Rightarrow> string \<Rightarrow> bool" where
  "startsWith s p \<longleftrightarrow> take (length p) s = p"

definition isValidCollectionName :: "string \<Rightarrow> bool" where
  "isValidCollectionName s \<longleftrightarrow>
     s \<noteq> [] \<and> (1 \<le> length s \<and> length s \<le> 120 \<and> list_all (\<lambda>c. c \<in> set identifier_chars) s)
       \<and> \<not> startsWith s ''system.''"

section \<open>Configuration and construction of the session manager\<close>

text \<open>
  \<^verbatim>\<open>MongoConfig\<close> as the caller passes it (every field but \<^verbatim>\<open>session\<close> optional) and
  \<^verbatim>\<open>Required<MongoConfig>\<close> as the constructor stores it. The pass-through
  \<^verbatim>\<open>mongoOptions\<close> are not modelled. The operator \<^verbatim>\<open>||\<close> takes the default for a
  missing field and also for \<^verbatim>\<open>0\<close>, \<^verbatim>\<open>''\<close> and \<^verbatim>\<open>false\<close>.
\<close>

record MongoConfig =
  opt_collectionName :: "string option"
  opt_retryRequestDelayMs :: "int option"
  opt_maxRetries :: "int option"
  opt_session :: string
  opt_debug :: "bool option"

record Config =
  collectionName :: string
  retryRequestDelayMs :: int
  maxRetries :: int
  session :: string
  debug :: bool

record manager =
  mongoURI :: string
  config :: Config
  sessionPrefix :: string

definition or_string :: "string option \<Rightarrow> string \<Rightarrow> string" where
  "or_string v d = (case v of None \<Rightarrow> d | Some s \<Rightarrow> if s = [] then d else s)"

definition or_int :: "int option \<Rightarrow> int \<Rightarrow> int" where
  "or_int v d = (case v of None \<Rightarrow> d | Some n \<Rightarrow> if n = 0 then d else n)"

definition or_bool :: "bool option \<Rightarrow> bool \<Rightarrow> bool" where
  "or_bool v d = (case v of None \<Rightarrow> d | Some b \<Rightarrow> if b then b else d)"

definition resolveConfig :: "MongoConfig \<Rightarrow> Config" where
  "resolveConfig c =
     \<lparr> collectionName = or_string (opt_collectionName c) ''baileys-auth'',
       retryRequestDelayMs = or_int (opt_retryRequestDelayMs c) 200,
       maxRetries = or_int (opt_maxRetries c) 10,
       session = opt_session c,
       debug = or_bool (opt_debug c) False \<rparr>"

definition newMongoSessionManager :: "string \<Rightarrow> MongoConfig \<Rightarrow> error + manager" where
  "newMongoSessionManager uri c =
     (if uri = [] then
        Inl (SessionValidationError ''MongoDB URI is required and must be a string'' None)
      else if opt_session c = [] \<or> \<not> isValidSessionId (opt_session c) then
        Inl (SessionValidationError ''Valid session identifier is required'' None)
      else if \<not> isValidCollectionName (collectionName (resolveConfig c)) then
        Inl (SessionValidationError
               (''Invalid collection name: '' @ collectionName (resolveConfig c)) None)
      else
        Inr \<lparr> mongoURI = uri, config = resolveConfig c,
              sessionPrefix = session (resolveConfig c) @ ''-'' \<rparr>)"

section \<open>Key namespace\<close>

text \<open>
  The six keys of \<^verbatim>\<open>SignalDataTypeMap\<close>. \<^verbatim>\<open>keys.get\<close> and \<^verbatim>\<open>keys.set\<close> build the
  data key \<^verbatim>\<open>`${type}-${id}`\<close>; \<^verbatim>\<open>queryDocument\<close>, \<^verbatim>\<open>writeData\<close> and
  \<^verbatim>\<open>removeData\<close> prefix it with \<^verbatim>\<open>sessionPrefix\<close> to obtain the document id.
\<close>

datatype category =
  Session | PreKey | SenderKey | AppStateSyncKey | AppStateSyncVersion | SenderKeyMemory

fun category_name :: "category \<Rightarrow> string" where
  "category_name Session = ''session''"
| "category_name PreKey = ''pre-key''"
| "category_name SenderKey = ''sender-key''"
| "category_name AppStateSyncKey = ''app-state-sync-key''"
| "category_name AppStateSyncVersion = ''app-state-sync-version''"
| "category_name SenderKeyMemory = ''sender-key-memory''"

definition dataKey :: "category \<Rightarrow> string \<Rightarrow> string" where
  "dataKey type ident = category_name type @ ''-'' @ ident"

definition fullId :: "manager \<Rightarrow> string \<Rightarrow> string" where
  "fullId m docId = sessionPrefix m @ docId"

section \<open>Timestamps\<close>

text \<open>
  \<^verbatim>\<open>parseInt(s, 10)\<close>: leading white space is skipped, one sign is read, then the
  longest run of decimal digits; no digit gives \<^verbatim>\<open>NaN\<close>. Only the ASCII white space
  characters are modelled.
\<close>

definition is_js_space :: "char \<Rightarrow> bool" where
  "is_js_space c \<longleftrightarrow> (of_char c :: nat) \<in> {9, 10, 11, 12, 13, 32}"

definition is_digit :: "char \<Rightarrow> bool" where
  "is_digit c \<longleftrightarrow> (48::nat) \<le> of_char c \<and> (of_char c :: nat) \<le> 57"

definition digits_value :: "string \<Rightarrow> int" where
  "digits_value ds = foldl (\<lambda>a c. 10 * a + (int (of_char c) - 48)) 0 ds"

definition parseInt10 :: "string \<Rightarrow> jsnum" where
  "parseInt10 s =
     (let t = dropWhile is_js_space s;
          sgn = (case t of c # _ \<Rightarrow> if c = CHR ''-'' then - 1 else (1::int) | [] \<Rightarrow> 1);
          u = (case t of c # r \<Rightarrow> if c = CHR ''-'' \<or> c = CHR ''+'' then r else t | [] \<Rightarrow> t);
          z = takeWhile is_digit u
      in if z = [] then NaN else Num (sgn * digits_value z))"

text \<open>
  What \<^verbatim>\<open>TimestampUtils.parseTimestamp\<close> observes of its argument: a string, a number,
  or any other value, of which it tests the truthiness, whether \<^verbatim>\<open>toNumber\<close> is a
  function (then \<open>ts_toNumber\<close> is what the call returns), and whether \<^verbatim>\<open>toString\<close>
  is a function (then \<open>ts_toString\<close> is what the call returns); \<open>ts_typeof\<close> is the
  result of \<^verbatim>\<open>typeof\<close>, which only the error message uses.
\<close>

datatype ts_input =
    TsString string
  | TsNumber jsnum
  | TsOther (ts_truthy: bool) (ts_typeof: string) (ts_toNumber: "jsnum option")
      (ts_toString: "string option")

fun parseTimestamp :: "ts_input \<Rightarrow> error + jsnum" where
  "parseTimestamp (TsString s) =
     (case parseInt10 s of
        NaN \<Rightarrow> Inl (SessionValidationError (''Invalid timestamp string: '' @ s) None)
      | Num n \<Rightarrow> Inr (Num n))"
| "parseTimestamp (TsNumber n) = Inr n"
| "parseTimestamp (TsOther truthy ty toNum toStr) =
     (case (if truthy then toNum else None) of
        Some r \<Rightarrow> Inr r
      | None \<Rightarrow>
          (case (if truthy then toStr else None) of
             Some s \<Rightarrow> Inr (parseInt10 s)
           | None \<Rightarrow> Inl (SessionValidationError (''Unsupported timestamp type: '' @ ty) None)))"

section \<open>Credential bootstrap\<close>

text \<open>
  \<^verbatim>\<open>initAuthCreds\<close> computes the registration id as
  \<^verbatim>\<open>(Uint16Array.from(randomBytes(2))[0] ?? 0) & 16383\<close>. \<^verbatim>\<open>Uint16Array.from\<close> maps
  every byte of the buffer to one 16-bit element; \<^verbatim>\<open>&\<close> works on 32-bit integers.
  The random bytes are the argument of the model. The key pairs, tokens and
  identifiers of the bundle come from the cryptography provider and the random
  source and are left out; the constant fields are kept.
\<close>

definition Uint16Array_from :: "byte list \<Rightarrow> 16 word list" where
  "Uint16Array_from bs = map ucast bs"

definition registrationId_of :: "byte list \<Rightarrow> int" where
  "registrationId_of random2 =
     sint ((case Uint16Array_from random2 of [] \<Rightarrow> 0 | x # _ \<Rightarrow> (ucast x :: 32 word)) AND 16383)"

record AuthenticationCreds =
  registrationId :: int
  nextPreKeyId :: int
  firstUnuploadedPreKeyId :: int
  accountSyncCounter :: int
  registered :: bool

definition initAuthCreds :: "byte list \<Rightarrow> AuthenticationCreds" where
  "initAuthCreds random2 =
     \<lparr> registrationId = registrationId_of random2,
       nextPreKeyId = 1,
       firstUnuploadedPreKeyId = 1,
       accountSyncCounter = 0,
       registered = False \<rparr>"

section \<open>Values and JSON documents\<close>

text \<open>
  The JavaScript values that reach the store: the JSON primitives, arrays, plain
  objects, Node \<^verbatim>\<open>Buffer\<close>s and plain \<^verbatim>\<open>Uint8Array\<close>s. A plain object is the list
  of its own enumerable properties in enumeration order, so the keys of a list that
  stands for an object are distinct. A \<open>json\<close> is the document that a JSON text
  denotes; \<^verbatim>\<open>JSON.stringify\<close> produces one and \<^verbatim>\<open>JSON.parse\<close> reads one, keeping
  the members of an object in the order of the text (as it does for a text that
  \<^verbatim>\<open>JSON.stringify\<close> wrote). Values that are \<^verbatim>\<open>undefined\<close> or functions are not
  modelled.
\<close>

datatype jsval =
    JNull
  | JBool bool
  | JNum jsnum
  | JStr string
  | JArr "jsval list"
  | JObj "(string \<times> jsval) list"
  | JBuffer "byte list"
  | JUint8Array "byte list"

datatype json =
    JsonNull
  | JsonBool bool
  | JsonNum int
  | JsonStr string
  | JsonArr "json list"
  | JsonObj "(string \<times> json) list"

text \<open>
  Conversions of the JavaScript runtime and of Node's \<^verbatim>\<open>Buffer\<close> that are outside
  this package and that the model does not fix: the coercion of a string, array or
  object to a byte (\<^verbatim>\<open>ToUint8\<close>), \<^verbatim>\<open>Buffer.from\<close> of a plain object (\<open>None\<close> when it
  throws), and \<^verbatim>\<open>toString()\<close> of an array or byte array. Every definition that
  needs one takes the runtime as an argument.
\<close>

record runtime =
  rt_ToUint8 :: "jsval \<Rightarrow> byte"
  rt_BufferFrom :: "(string \<times> jsval) list \<Rightarrow> byte list option"
  rt_toString :: "jsval \<Rightarrow> string"

definition truthy :: "jsval \<Rightarrow> bool" where
  "truthy v = (case v of
       JNull \<Rightarrow> False
     | JBool b \<Rightarrow> b
     | JNum n \<Rightarrow> (case n of NaN \<Rightarrow> False | Num i \<Rightarrow> i \<noteq> 0)
     | JStr s \<Rightarrow> s \<noteq> []
     | _ \<Rightarrow> True)"

definition toUint8 :: "runtime \<Rightarrow> jsval \<Rightarrow> byte" where
  "toUint8 rt v = (case v of
       JNum n \<Rightarrow> (case n of NaN \<Rightarrow> 0 | Num i \<Rightarrow> word_of_int i)
     | JNull \<Rightarrow> 0
     | JBool b \<Rightarrow> (if b then 1 else 0)
     | _ \<Rightarrow> rt_ToUint8 rt v)"

text \<open>Property access \<^verbatim>\<open>v.k\<close> and \<^verbatim>\<open>v?.k\<close> for the property names this package reads:
  only a plain object has them.\<close>

definition get_prop :: "jsval \<Rightarrow> string \<Rightarrow> jsval option" where
  "get_prop v k = (case v of JObj kvs \<Rightarrow> map_of kvs k | _ \<Rightarrow> None)"

definition prop_opt :: "jsval option \<Rightarrow> string \<Rightarrow> jsval option" where
  "prop_opt v k = (case v of None \<Rightarrow> None | Some x \<Rightarrow> get_prop x k)"

definition js_or :: "jsval option \<Rightarrow> jsval \<Rightarrow> jsval" where
  "js_or a d = (case a of None \<Rightarrow> d | Some v \<Rightarrow> if truthy v then v else d)"

section \<open>Base64\<close>

text \<open>
  \<^verbatim>\<open>buffer.toString('base64')\<close> and \<^verbatim>\<open>Buffer.from(text, 'base64')\<close>. The decoder
  is Node's: it stops at the first \<^verbatim>\<open>=\<close>, skips every character outside the
  alphabet, accepts the URL-safe \<^verbatim>\<open>-\<close> and \<^verbatim>\<open>_\<close>, and drops an incomplete group.
\<close>

definition b64_alphabet :: string where
  "b64_alphabet = ''ABCDEFGHIJKLMNOPQRSTUVWXYZabcdefghijklmnopqrstuvwxyz0123456789+/''"

definition b64_char :: "nat \<Rightarrow> char" where
  "b64_char n = b64_alphabet ! n"

fun find_index :: "'a \<Rightarrow> 'a list \<Rightarrow> nat option" where
  "find_index c [] = None"
| "find_index c (x # xs) = (if c = x then Some 0 else map_option Suc (find_index c xs))"

definition b64_value :: "char \<Rightarrow> nat option" where
  "b64_value c =
     (if c = CHR ''-'' then Some 62 else if c = CHR ''_'' then Some 63
      else find_index c b64_alphabet)"

fun base64_encode :: "byte list \<Rightarrow> string" where
  "base64_encode [] = []"
| "base64_encode [a] =
     [b64_char (unat a div 4), b64_char ((unat a mod 4) * 16), CHR ''='', CHR ''='']"
| "base64_encode [a, b] =
     [b64_char (unat a div 4), b64_char ((unat a mod 4) * 16 + unat b div 16),
      b64_char ((unat b mod 16) * 4), CHR ''='']"
| "base64_encode (a # b # c # rest) =
     [b64_char (unat a div 4), b64_char ((unat a mod 4) * 16 + unat b div 16),
      b64_char ((unat b mod 16) * 4 + unat c div 64), b64_char (unat c mod 64)]
     @ base64_encode rest"

fun decode_sextets :: "nat list \<Rightarrow> byte list" where
  "decode_sextets (a # b # c # d # rest) =
     [of_nat (a * 4 + b div 16), of_nat ((b mod 16) * 16 + c div 4), of_nat ((c mod 4) * 64 + d)]
     @ decode_sextets rest"
| "decode_sextets [a, b, c] = [of_nat (a * 4 + b div 16), of_nat ((b mod 16) * 16 + c div 4)]"
| "decode_sextets [a, b] = [of_nat (a * 4 + b div 16)]"
| "decode_sextets [a] = []"
| "decode_sextets [] = []"

definition sextets :: "string \<Rightarrow> nat list" where
  "sextets s = List.map_filter b64_value (takeWhile (\<lambda>c. c \<noteq> CHR ''='') s)"

definition base64_decode :: "string \<Rightarrow> byte list" where
  "base64_decode s = decode_sextets (sextets s)"

section \<open>Serialization codec\<close>

text \<open>
  \<^verbatim>\<open>JSON.stringify(value, BufferJSON.replacer)\<close>. A \<^verbatim>\<open>Buffer\<close> has a \<^verbatim>\<open>toJSON\<close>
  method, whose result \<^verbatim>\<open>{type:'Buffer', data:[bytes]}\<close> is what the replacer
  sees; the replacer turns every object with \<^verbatim>\<open>type === 'Buffer'\<close> and an array
  \<^verbatim>\<open>data\<close> into \<^verbatim>\<open>{type:'Buffer', data:<base64>}\<close> (\<open>bufferJson\<close> is its text). A
  plain \<^verbatim>\<open>Uint8Array\<close> has no \<^verbatim>\<open>toJSON\<close> and is written as an object with its
  indices as keys. \<^verbatim>\<open>NaN\<close> is written as \<^verbatim>\<open>null\<close>.
\<close>

definition bufferJson :: "byte list \<Rightarrow> json" where
  "bufferJson bs = JsonObj [(''type'', JsonStr ''Buffer''), (''data'', JsonStr (base64_encode bs))]"

definition replacer_data :: "(string \<times> jsval) list \<Rightarrow> jsval list option" where
  "replacer_data kvs =
     (if map_of kvs ''type'' = Some (JStr ''Buffer'') then
        (case map_of kvs ''data'' of Some (JArr xs) \<Rightarrow> Some xs | _ \<Rightarrow> None)
      else None)"

primrec stringify :: "runtime \<Rightarrow> jsval \<Rightarrow> json" where
  "stringify rt JNull = JsonNull"
| "stringify rt (JBool b) = JsonBool b"
| "stringify rt (JNum n) = (case n of NaN \<Rightarrow> JsonNull | Num i \<Rightarrow> JsonNum i)"
| "stringify rt (JStr s) = JsonStr s"
| "stringify rt (JArr xs) = JsonArr (map (stringify rt) xs)"
| "stringify rt (JObj kvs) =
     (case replacer_data kvs of
        Some xs \<Rightarrow> bufferJson (map (toUint8 rt) xs)
      | None \<Rightarrow> JsonObj (map (map_prod id (stringify rt)) kvs))"
| "stringify rt (JBuffer bs) = bufferJson bs"
| "stringify rt (JUint8Array bs) =
     JsonObj (zip (map show_nat [0 ..< length bs]) (map (\<lambda>b. JsonNum (uint b)) bs))"

text \<open>
  \<^verbatim>\<open>JSON.parse(text, BufferJSON.reviver)\<close>: the reviver runs on every value after
  its children. It turns every object with \<^verbatim>\<open>type === 'Buffer'\<close> into
  \<^verbatim>\<open>Buffer.from(value.data, 'base64')\<close> and wraps what that call throws.
\<close>

fun sequence_sum :: "('e + 'a) list \<Rightarrow> 'e + 'a list" where
  "sequence_sum [] = Inr []"
| "sequence_sum (r # rs) =
     (case r of
        Inl e \<Rightarrow> Inl e
      | Inr x \<Rightarrow> (case sequence_sum rs of Inl e \<Rightarrow> Inl e | Inr xs \<Rightarrow> Inr (x # xs)))"

fun sequence_props :: "('k \<times> ('e + 'a)) list \<Rightarrow> 'e + ('k \<times> 'a) list" where
  "sequence_props [] = Inr []"
| "sequence_props ((k, r) # rs) =
     (case r of
        Inl e \<Rightarrow> Inl e
      | Inr x \<Rightarrow> (case sequence_props rs of Inl e \<Rightarrow> Inl e | Inr xs \<Rightarrow> Inr ((k, x) # xs)))"

definition bufferFromBase64 :: "runtime \<Rightarrow> jsval option \<Rightarrow> byte list option" where
  "bufferFromBase64 rt d = (case d of
       Some (JStr s) \<Rightarrow> Some (base64_decode s)
     | Some (JArr xs) \<Rightarrow> Some (map (toUint8 rt) xs)
     | Some (JBuffer bs) \<Rightarrow> Some bs
     | Some (JUint8Array bs) \<Rightarrow> Some bs
     | Some (JObj kvs) \<Rightarrow> rt_BufferFrom rt kvs
     | _ \<Rightarrow> None)"

definition reviver :: "runtime \<Rightarrow> jsval \<Rightarrow> error + jsval" where
  "reviver rt v =
     (if get_prop v ''type'' = Some (JStr ''Buffer'') then
        (case bufferFromBase64 rt (get_prop v ''data'') of
           Some bs \<Rightarrow> Inr (JBuffer bs)
         | None \<Rightarrow> Inl (SessionValidationError ''Failed to revive Buffer from base64''
                         (Some (DriverError ''TypeError''))))
      else Inr v)"

primrec parse :: "runtime \<Rightarrow> json \<Rightarrow> error + jsval" where
  "parse rt JsonNull = reviver rt JNull"
| "parse rt (JsonBool b) = reviver rt (JBool b)"
| "parse rt (JsonNum i) = reviver rt (JNum (Num i))"
| "parse rt (JsonStr s) = reviver rt (JStr s)"
| "parse rt (JsonArr xs) =
     (case sequence_sum (map (parse rt) xs) of
        Inl e \<Rightarrow> Inl e
      | Inr vs \<Rightarrow> reviver rt (JArr vs))"
| "parse rt (JsonObj kvs) =
     (case sequence_props (map (map_prod id (parse rt)) kvs) of
        Inl e \<Rightarrow> Inl e
      | Inr kvs' \<Rightarrow> reviver rt (JObj kvs'))"


section \<open>App state sync values\<close>

text \<open>\<^verbatim>\<open>CryptoUtils.allocateForBase64\<close>: the loop counts at most two trailing
  \<^verbatim>\<open>=\<close>; the array is filled with zeros. \<open>count_padding str p\<close> is the loop entered
  with \<^verbatim>\<open>p\<close> before its decrement.\<close>

fun count_padding :: "string \<Rightarrow> nat \<Rightarrow> nat" where
  "count_padding str 0 = 0"
| "count_padding str (Suc p) =
     (if p mod 4 > 1 \<and> str ! p = CHR ''='' then Suc (count_padding str p) else 0)"

definition allocateForBase64 :: "string \<Rightarrow> byte list" where
  "allocateForBase64 str =
     (if str = [] then replicate 1 0
      else replicate ((length str * 3) div 4 - count_padding str (length str)) 0)"

text \<open>What \<^verbatim>\<open>parseTimestamp\<close> observes of a value read from the store, or of a
  missing property (\<open>None\<close>). A parsed object has no function-valued property, so
  \<^verbatim>\<open>toNumber\<close> is never a function, and \<^verbatim>\<open>toString\<close> is the inherited one unless
  an own property hides it.\<close>

definition ts_view :: "runtime \<Rightarrow> jsval option \<Rightarrow> ts_input" where
  "ts_view rt t = (case t of
       None \<Rightarrow> TsOther False ''undefined'' None None
     | Some JNull \<Rightarrow> TsOther False ''object'' None None
     | Some (JBool b) \<Rightarrow> TsOther b ''boolean'' None (Some (if b then ''true'' else ''false''))
     | Some (JNum n) \<Rightarrow> TsNumber n
     | Some (JStr s) \<Rightarrow> TsString s
     | Some (JObj kvs) \<Rightarrow>
         TsOther True ''object'' None
           (if map_of kvs ''toString'' = None then Some ''[object Object]'' else None)
     | Some v \<Rightarrow> TsOther True ''object'' None (Some (rt_toString rt v)))"

definition fromObject :: "runtime \<Rightarrow> jsval \<Rightarrow> error + jsval" where
  "fromObject rt args =
     (if args = JNull then
        Inl (SessionValidationError ''Failed to convert AppDataSync object''
               (Some (DriverError ''TypeError'')))
      else
        (let fp = get_prop args ''fingerprint'';
             fingerprint = JObj
               [(''rawId'', js_or (prop_opt fp ''rawId'') (JNum (Num 0))),
                (''currentIndex'',
                   js_or (prop_opt fp ''currentIndex'')
                     (js_or (prop_opt fp ''rawId'') (JNum (Num 0)))),
                (''deviceIndexes'',
                   (case prop_opt fp ''deviceIndexes'' of
                      Some (JArr xs) \<Rightarrow> JArr xs
                    | _ \<Rightarrow> JArr []))];
             keyData = (case get_prop args ''keyData'' of
                 Some (JArr xs) \<Rightarrow> JUint8Array (map (toUint8 rt) xs)
               | Some (JBuffer bs) \<Rightarrow> JBuffer bs
               | Some (JUint8Array bs) \<Rightarrow> JUint8Array bs
               | _ \<Rightarrow> JUint8Array [])
         in case parseTimestamp (ts_view rt (get_prop args ''timestamp'')) of
              Inl e \<Rightarrow> Inl (SessionValidationError ''Failed to convert AppDataSync object'' (Some e))
            | Inr ts \<Rightarrow>
                Inr (JObj
                  [(''keyData'',
                      (case get_prop args ''keyData'' of
                         Some (JStr s) \<Rightarrow> JUint8Array (allocateForBase64 s)
                       | _ \<Rightarrow> keyData)),
                   (''fingerprint'', fingerprint),
                   (''timestamp'', JNum ts)])))"

text \<open>The interfaces \<^verbatim>\<open>Fingerprint\<close> and \<^verbatim>\<open>AppDataSync\<close> of \<^verbatim>\<open>Types\<close>, and the
  object that holds such a value, its key data in a \<^verbatim>\<open>Buffer\<close>.\<close>

record Fingerprint =
  rawId :: int
  currentIndex :: int
  deviceIndexes :: "int list"

record AppDataSync =
  keyData :: "byte list"
  fingerprint :: Fingerprint
  timestamp :: int


section \<open>The document store\<close>

text \<open>
  A record of the collection: the \<^verbatim>\<open>value\<close> and \<^verbatim>\<open>session\<close> fields of the schema
  (the time stamps are left out). \<^verbatim>\<open>readData\<close> observes three things of a stored
  value: that it is falsy, that \<^verbatim>\<open>JSON.parse\<close> rejects its text, or the document
  its text denotes (a stored object is first written out by \<^verbatim>\<open>JSON.stringify\<close>,
  which gives the same document).
\<close>

datatype stored = Falsy | Malformed | Doc json

record document =
  doc_value :: stored
  doc_session :: string

text \<open>
  The state that the operations share: the collection, the manager's
  \<^verbatim>\<open>isConnected\<close> flag, \<^verbatim>\<open>mongoose.connection.readyState\<close>, and a scripted
  driver. Every call of the driver (\<^verbatim>\<open>connect\<close>, \<^verbatim>\<open>findById\<close>, \<^verbatim>\<open>updateOne\<close>,
  \<^verbatim>\<open>deleteOne\<close>, \<^verbatim>\<open>deleteMany\<close>) takes the next entry of \<open>faults\<close>: \<open>Some e\<close>
  makes the call throw \<open>e\<close> and change nothing, \<open>None\<close> or an exhausted script lets
  it succeed. \<open>calls\<close> counts the driver calls and \<open>sleeps\<close> records the delay of
  every \<^verbatim>\<open>setTimeout\<close> the retry loop awaits.
\<close>

record world =
  docs :: "string \<rightharpoonup> document"
  isConnected :: bool
  readyState :: nat
  faults :: "error option list"
  calls :: nat
  sleeps :: "int list"

type_synonym 'a operation = "world \<Rightarrow> (error + 'a) \<times> world"

definition next_fault :: "world \<Rightarrow> error option" where
  "next_fault w = (case faults w of [] \<Rightarrow> None | f # _ \<Rightarrow> f)"

definition consume :: "world \<Rightarrow> world" where
  "consume w = w\<lparr>faults := tl (faults w), calls := Suc (calls w)\<rparr>"

definition driverCall ::
  "((string \<rightharpoonup> document) \<Rightarrow> 'a \<times> (string \<rightharpoonup> document)) \<Rightarrow> 'a operation" where
  "driverCall f w =
     (case next_fault w of
        Some e \<Rightarrow> (Inl e, consume w)
      | None \<Rightarrow> (Inr (fst (f (docs w))), (consume w)\<lparr>docs := snd (f (docs w))\<rparr>))"

definition findById :: "string \<Rightarrow> document option operation" where
  "findById k = driverCall (\<lambda>d. (d k, d))"

definition updateOne_upsert :: "string \<Rightarrow> document \<Rightarrow> unit operation" where
  "updateOne_upsert k doc = driverCall (\<lambda>d. ((), d(k \<mapsto> doc)))"

definition deleteOne :: "string \<Rightarrow> unit operation" where
  "deleteOne k = driverCall (\<lambda>d. ((), d(k := None)))"

definition deleteMany :: "(string \<Rightarrow> document \<Rightarrow> bool) \<Rightarrow> unit operation" where
  "deleteMany p =
     driverCall (\<lambda>d. ((), (\<lambda>k. case d k of
                                 None \<Rightarrow> None
                               | Some x \<Rightarrow> if p k x then None else Some x)))"

definition mongoose_connect :: "unit operation" where
  "mongoose_connect w =
     (case driverCall (\<lambda>d. ((), d)) w of
        (Inl e, w') \<Rightarrow> (Inl e, w')
      | (Inr u, w') \<Rightarrow> (Inr u, w'\<lparr>readyState := 1\<rparr>))"

section \<open>Retrying storage gateway\<close>

definition connected :: "world \<Rightarrow> bool" where
  "connected w \<longleftrightarrow> isConnected w \<and> readyState w = 1"

definition ensureConnection :: "unit operation" where
  "ensureConnection w =
     (if connected w then (Inr (), w)
      else
        (case mongoose_connect w of
           (Inr u, w') \<Rightarrow> (Inr (), w'\<lparr>isConnected := True\<rparr>)
         | (Inl e, w') \<Rightarrow>
             (Inl (MongoConnectionError ''Failed to connect to MongoDB'' (Some e)),
              w'\<lparr>isConnected := False\<rparr>)))"

text \<open>The body of the \<^verbatim>\<open>try\<close> block of \<^verbatim>\<open>executeWithRetry\<close>.\<close>

definition tryBody :: "'a operation \<Rightarrow> 'a operation" where
  "tryBody operation w =
     (case ensureConnection w of
        (Inl e, w') \<Rightarrow> (Inl e, w')
      | (Inr u, w') \<Rightarrow> operation w')"

definition exhausted :: "string \<Rightarrow> int \<Rightarrow> error option \<Rightarrow> error" where
  "exhausted operationName n lastError =
     MongoConnectionError (operationName @ '' failed after '' @ show_int n @ '' attempts'') lastError"

text \<open>The \<^verbatim>\<open>for\<close> loop of \<^verbatim>\<open>executeWithRetry\<close>, entered with the loop variable
  \<^verbatim>\<open>attempt\<close> and with \<^verbatim>\<open>lastError\<close>; \<open>n\<close> is \<^verbatim>\<open>maxRetries\<close> and \<open>d\<close> is
  \<^verbatim>\<open>retryRequestDelayMs\<close>.\<close>

function retry_loop ::
  "int \<Rightarrow> int \<Rightarrow> string \<Rightarrow> 'a operation \<Rightarrow> int \<Rightarrow> error option \<Rightarrow> 'a operation" where
  "retry_loop n d operationName operation attempt lastError w =
     (if attempt \<le> n then
        (case tryBody operation w of
           (Inr v, w') \<Rightarrow> (Inr v, w')
         | (Inl e, w') \<Rightarrow>
             (if attempt < n then
                retry_loop n d operationName operation (attempt + 1) (Some e)
                  (w'\<lparr>sleeps := sleeps w' @ [d]\<rparr>)
              else (Inl (exhausted operationName n (Some e)), w')))
      else (Inl (exhausted operationName n lastError), w))"
  by pat_completeness auto
termination
  by (relation "measure (\<lambda>(n, d, operationName, operation, attempt, lastError, w).
        nat (n + 1 - attempt))") auto

declare retry_loop.simps [simp del]

definition executeWithRetry :: "manager \<Rightarrow> 'a operation \<Rightarrow> string \<Rightarrow> 'a operation" where
  "executeWithRetry m operation operationName =
     retry_loop (maxRetries (config m)) (retryRequestDelayMs (config m))
       operationName operation 1 None"

definition queryDocument :: "manager \<Rightarrow> string \<Rightarrow> document option operation" where
  "queryDocument m docId =
     executeWithRetry m (findById (fullId m docId)) (''Query document '' @ docId)"

definition rethrow_read :: "string \<Rightarrow> error \<Rightarrow> error" where
  "rethrow_read ident e = (case e of
       MongoConnectionError msg cause \<Rightarrow> e
     | _ \<Rightarrow> SessionValidationError (''Failed to read data for ID: '' @ ident) (Some e))"

definition readData :: "runtime \<Rightarrow> manager \<Rightarrow> string \<Rightarrow> jsval operation" where
  "readData rt m ident w =
     (case queryDocument m ident w of
        (Inl e, w') \<Rightarrow> (Inl (rethrow_read ident e), w')
      | (Inr None, w') \<Rightarrow> (Inr JNull, w')
      | (Inr (Some data), w') \<Rightarrow>
          (case doc_value data of
             Falsy \<Rightarrow> (Inr JNull, w')
           | Malformed \<Rightarrow> (Inl (rethrow_read ident (DriverError ''SyntaxError'')), w')
           | Doc j \<Rightarrow>
               (case parse rt j of
                  Inl e \<Rightarrow> (Inl (rethrow_read ident e), w')
                | Inr v \<Rightarrow> (Inr v, w'))))"

definition writeData :: "runtime \<Rightarrow> manager \<Rightarrow> string \<Rightarrow> jsval \<Rightarrow> unit operation" where
  "writeData rt m ident v =
     executeWithRetry m
       (updateOne_upsert (fullId m ident)
          \<lparr>doc_value = Doc (stringify rt v), doc_session = session (config m)\<rparr>)
       (''Write data '' @ ident)"

definition removeData :: "manager \<Rightarrow> string \<Rightarrow> unit operation" where
  "removeData m ident =
     executeWithRetry m (deleteOne (fullId m ident)) (''Remove data '' @ ident)"

definition clearSessionData :: "manager \<Rightarrow> unit operation" where
  "clearSessionData m =
     executeWithRetry m
       (deleteMany (\<lambda>k x. doc_session x = session (config m) \<and> k \<noteq> sessionPrefix m @ ''creds''))
       ''Clear session data''"

definition removeAllSessionData :: "manager \<Rightarrow> unit operation" where
  "removeAllSessionData m =
     executeWithRetry m (deleteMany (\<lambda>k x. doc_session x = session (config m)))
       ''Remove all session data''"

section \<open>Key store facade\<close>

text \<open>
  \<^verbatim>\<open>keys.get\<close>: the loop over \<^verbatim>\<open>ids\<close> with the result object \<^verbatim>\<open>data\<close> built so far.
  The \<^verbatim>\<open>catch\<close> covers both \<^verbatim>\<open>readData\<close> and \<^verbatim>\<open>fromObject\<close>.
\<close>

fun get_loop ::
  "runtime \<Rightarrow> manager \<Rightarrow> category \<Rightarrow> string list \<Rightarrow> (string \<rightharpoonup> jsval) \<Rightarrow> world
     \<Rightarrow> (string \<rightharpoonup> jsval) \<times> world" where
  "get_loop rt m type [] data w = (data, w)"
| "get_loop rt m type (ident # ids) data w =
     (case readData rt m (dataKey type ident) w of
        (Inl e, w') \<Rightarrow> get_loop rt m type ids (data(ident \<mapsto> JNull)) w'
      | (Inr v, w') \<Rightarrow>
          (if category_name type = ''app-state-sync-key'' \<and> truthy v then
             (case fromObject rt v of
                Inl e \<Rightarrow> get_loop rt m type ids (data(ident \<mapsto> JNull)) w'
              | Inr v' \<Rightarrow> get_loop rt m type ids (data(ident \<mapsto> v')) w')
           else get_loop rt m type ids (data(ident \<mapsto> v)) w'))"

text \<open>The value that one iteration of the loop stores for its id, and the state it
  leaves.\<close>

definition get_one :: "runtime \<Rightarrow> manager \<Rightarrow> category \<Rightarrow> string \<Rightarrow> world \<Rightarrow> jsval \<times> world" where
  "get_one rt m type ident w =
     (case readData rt m (dataKey type ident) w of
        (Inl e, w') \<Rightarrow> (JNull, w')
      | (Inr v, w') \<Rightarrow>
          (if category_name type = ''app-state-sync-key'' \<and> truthy v then
             (case fromObject rt v of Inl e \<Rightarrow> (JNull, w') | Inr v' \<Rightarrow> (v', w'))
           else (v, w')))"

definition keys_get ::
  "runtime \<Rightarrow> manager \<Rightarrow> category \<Rightarrow> string list \<Rightarrow> world \<Rightarrow> (string \<rightharpoonup> jsval) \<times> world" where
  "keys_get rt m type ids w = get_loop rt m type ids Map.empty w"

text \<open>
  \<^verbatim>\<open>keys.set\<close>: the inner loop over the ids of one category and the outer loop
  over the categories, each in the enumeration order of the object. A \<^verbatim>\<open>null\<close>
  (or any falsy) value removes the key. A category whose entry is undefined
  (\<open>None\<close>) is skipped.
\<close>

fun set_ids :: "runtime \<Rightarrow> manager \<Rightarrow> category \<Rightarrow> (string \<times> jsval) list \<Rightarrow> unit operation" where
  "set_ids rt m c [] w = (Inr (), w)"
| "set_ids rt m c ((ident, v) # rest) w =
     (case (if truthy v then writeData rt m (dataKey c ident) v w
            else removeData m (dataKey c ident) w) of
        (Inl e, w') \<Rightarrow> (Inl e, w')
      | (Inr u, w') \<Rightarrow> set_ids rt m c rest w')"

fun keys_set ::
  "runtime \<Rightarrow> manager \<Rightarrow> (category \<times> (string \<times> jsval) list option) list \<Rightarrow> unit operation" where
  "keys_set rt m [] w = (Inr (), w)"
| "keys_set rt m ((c, None) # rest) w = keys_set rt m rest w"
| "keys_set rt m ((c, Some categoryData) # rest) w =
     (case set_ids rt m c categoryData w of
        (Inl e, w') \<Rightarrow> (Inl e, w')
      | (Inr u, w') \<Rightarrow> keys_set rt m rest w')"

subsection \<open>Sequences of operations\<close>

datatype request =
    ReadData string
  | WriteData string jsval
  | RemoveData string
  | ClearSessionData
  | RemoveAllSessionData
  | KeysGet category "string list"
  | KeysSet "(category \<times> (string \<times> jsval) list option) list"

datatype response =
    RespValue "error + jsval"
  | RespDone "error + unit"
  | RespMapping "string \<rightharpoonup> jsval"

fun perform :: "runtime \<Rightarrow> manager \<Rightarrow> request \<Rightarrow> world \<Rightarrow> response \<times> world" where
  "perform rt m (ReadData k) w = map_prod RespValue id (readData rt m k w)"
| "perform rt m (WriteData k v) w = map_prod RespDone id (writeData rt m k v w)"
| "perform rt m (RemoveData k) w = map_prod RespDone id (removeData m k w)"
| "perform rt m ClearSessionData w = map_prod RespDone id (clearSessionData m w)"
| "perform rt m RemoveAllSessionData w = map_prod RespDone id (removeAllSessionData m w)"
| "perform rt m (KeysGet c ids) w = map_prod RespMapping id (keys_get rt m c ids w)"
| "perform rt m (KeysSet delta) w = map_prod RespDone id (keys_set rt m delta w)"

fun run :: "runtime \<Rightarrow> manager \<Rightarrow> request list \<Rightarrow> world \<Rightarrow> response list \<times> world" where
  "run rt m [] w = ([], w)"
| "run rt m (r # rs) w =
     (case perform rt m r w of
        (x, w') \<Rightarrow> (case run rt m rs w' of (xs, w'') \<Rightarrow> (x # xs, w'')))"

text \<open>Two managers that agree on every field the operations read: the session,
  its prefix, and the retry settings.\<close>

definition same_store :: "manager \<Rightarrow> manager \<Rightarrow> bool" where
  "same_store m m' \<longleftrightarrow>
     sessionPrefix m' = sessionPrefix m \<and> session (config m') = session (config m)
     \<and> maxRetries (config m') = maxRetries (config m)
     \<and> retryRequestDelayMs (config m') = retryRequestDelayMs (config m)"

section \<open>Fixtures of the closed examples\<close>

definition test_config :: "string \<Rightarrow> int \<Rightarrow> MongoConfig" where
  "test_config s n =
     \<lparr> opt_collectionName = None, opt_retryRequestDelayMs = None, opt_maxRetries = Some n,
       opt_session = s, opt_debug = None \<rparr>"

definition test_manager :: "string \<Rightarrow> int \<Rightarrow> manager" where
  "test_manager s n =
     \<lparr> mongoURI = ''mongodb://localhost:27017/whatsapp'',
       config = resolveConfig (test_config s n),
       sessionPrefix = s @ ''-'' \<rparr>"

definition fresh_world :: world where
  "fresh_world =
     \<lparr> docs = Map.empty, isConnected = False, readyState = 0, faults = [], calls = 0,
       sleeps = [] \<rparr>"

definition stub_runtime :: runtime where
  "stub_runtime = \<lparr> rt_ToUint8 = (\<lambda>v. 0), rt_BufferFrom = (\<lambda>kvs. None), rt_toString = (\<lambda>v. []) \<rparr>"

definition three_records :: world where
  "three_records = fresh_world\<lparr>docs :=
     [''s-creds'' \<mapsto> \<lparr>doc_value = Doc (JsonObj []), doc_session = ''s''\<rparr>,
      ''s-session-1'' \<mapsto> \<lparr>doc_value = Doc (JsonNum 1), doc_session = ''s''\<rparr>,
      ''t-session-1'' \<mapsto> \<lparr>doc_value = Doc (JsonNum 2), doc_session = ''t''\<rparr>]\<rparr>"

definition abc_records :: world where
  "abc_records = fresh_world\<lparr>docs :=
     [''s-session-a'' \<mapsto> \<lparr>doc_value = Doc (JsonNum 1), doc_session = ''s''\<rparr>,
      ''s-session-b'' \<mapsto> \<lparr>doc_value = Doc (JsonNum 2), doc_session = ''s''\<rparr>,
      ''s-session-c'' \<mapsto> \<lparr>doc_value = Doc (JsonNum 3), doc_session = ''s''\<rparr>],
     faults := [None, None, Some (DriverError ''down''), None]\<rparr>"

definition flaky_world :: world where
  "flaky_world = fresh_world\<lparr>faults := [None, None, Some (DriverError ''down'')]\<rparr>"


section \<open>Base64 round trip\<close>











lemma div_mod_small:
  fixes a k r :: nat
  assumes "r < k"
  shows "(a * k + r) div k = a" and "(a * k + r) mod k = r"
  using assms by simp_all





section \<open>Credential bootstrap: the registration id\<close>

lemma uint_ucast_byte_le: "uint (ucast (ucast (x::byte) :: 16 word) :: 32 word) \<le> 255"
proof -
  have "uint (ucast (ucast x :: 16 word) :: 32 word) = uint x"
    by (simp add: uint_up_ucast is_up)
  moreover have "uint x < 2 ^ 8"
    using uint_bounded [of x] by simp
  ultimately show ?thesis by simp
qed

lemma uint_and_16383_le: "uint ((w::32 word) AND 16383) \<le> uint w"
  by (simp add: word_and_le2 word_le_def [symmetric])

text \<open>
  C9. Whatever the random bytes are, the registration id of a bootstrapped
  credential bundle lies between 0 and 255: the first element of the 16-bit array
  is one byte, and the mask 16383 leaves it as it is.
\<close>

theorem registrationId_range:
  "0 \<le> registrationId (initAuthCreds random2) \<and> registrationId (initAuthCreds random2) \<le> 255"
proof (cases random2)
  case Nil
  then show ?thesis
    by (simp add: initAuthCreds_def registrationId_of_def Uint16Array_from_def)
next
  case (Cons x xs)
  let ?w = "(ucast (ucast x :: 16 word) :: 32 word) AND 16383"
  have le: "uint ?w \<le> 255"
    using uint_and_16383_le [of "ucast (ucast x :: 16 word)"] uint_ucast_byte_le [of x]
    by linarith
  have ge: "- (2 ^ 31) \<le> uint ?w"
    by (rule order_trans [OF _ uint_ge_0]) simp
  have lt: "uint ?w < 2 ^ 31"
    using le by simp
  have "sint ?w = uint ?w"
    unfolding sint_uint using signed_take_bit_int_eq_self [OF ge lt] by simp
  with le Cons show ?thesis
    by (simp add: initAuthCreds_def registrationId_of_def Uint16Array_from_def)
qed

section \<open>Key namespace: colliding document ids\<close>

text \<open>
  C1. The document id is not injective over (session, category, id). The manager
  of the valid session \<open>a\<close> gives the sender key \<open>memory-x\<close> and the sender key
  memory \<open>x\<close> the same document id, and its session key \<open>session-x\<close> has the
  document id that the manager of the valid session \<open>a-session\<close> gives to its
  session key \<open>x\<close>.
\<close>

theorem fullId_collision:
  "newMongoSessionManager ''mongodb://localhost:27017/whatsapp'' (test_config ''a'' 3)
     = Inr (test_manager ''a'' 3)
   \<and> newMongoSessionManager ''mongodb://localhost:27017/whatsapp'' (test_config ''a-session'' 3)
     = Inr (test_manager ''a-session'' 3)
   \<and> fullId (test_manager ''a'' 3) (dataKey SenderKey ''memory-x'')
     = fullId (test_manager ''a'' 3) (dataKey SenderKeyMemory ''x'')
   \<and> fullId (test_manager ''a'' 3) (dataKey Session ''session-x'')
     = fullId (test_manager ''a-session'' 3) (dataKey Session ''x'')"
  by (simp add: newMongoSessionManager_def test_config_def test_manager_def resolveConfig_def
      isValidSessionId_def isValidCollectionName_def identifier_chars_def startsWith_def
      or_string_def or_int_def or_bool_def fullId_def dataKey_def)

section \<open>Timestamps: the unchecked parse\<close>

text \<open>
  C5. For a string, \<^verbatim>\<open>parseTimestamp\<close> raises the validation error when the parse
  gives \<^verbatim>\<open>NaN\<close>. For an object without \<^verbatim>\<open>toNumber\<close> it parses the result of
  \<^verbatim>\<open>toString()\<close> and returns the outcome unchecked: a plain object, which prints as
  \<open>[object Object]\<close>, and the boolean \<^verbatim>\<open>true\<close> both give \<^verbatim>\<open>NaN\<close> and no error.
\<close>

theorem parseTimestamp_returns_NaN:
  "parseTimestamp (TsOther True ''object'' None (Some ''[object Object]'')) = Inr NaN
   \<and> parseTimestamp (ts_view stub_runtime (Some (JObj []))) = Inr NaN
   \<and> parseTimestamp (ts_view stub_runtime (Some (JBool True))) = Inr NaN
   \<and> parseTimestamp (TsString ''[object Object]'')
     = Inl (SessionValidationError ''Invalid timestamp string: [object Object]'' None)"
  by (simp add: ts_view_def parseInt10_def is_js_space_def is_digit_def)

section \<open>Serialization codec: round trip\<close>

lemma reviver_plain [simp]:
  "reviver rt JNull = Inr JNull" "reviver rt (JBool b) = Inr (JBool b)"
  "reviver rt (JNum n) = Inr (JNum n)" "reviver rt (JStr s) = Inr (JStr s)"
  "reviver rt (JArr xs) = Inr (JArr xs)"
  by (simp_all add: reviver_def get_prop_def)











section \<open>Retrying storage gateway: attempts and delays\<close>

lemma ensureConnection_connected: "connected w \<Longrightarrow> ensureConnection w = (Inr (), w)"
  by (simp add: connected_def ensureConnection_def)

lemma tryBody_connected: "connected w \<Longrightarrow> tryBody operation w = operation w"
  by (simp add: tryBody_def ensureConnection_connected)

lemma driverCall_fault:
  "faults w = Some e # fs \<Longrightarrow> driverCall f w = (Inl e, w\<lparr>faults := fs, calls := Suc (calls w)\<rparr>)"
  by (simp add: driverCall_def next_fault_def consume_def)

lemma driverCall_ok:
  "faults w = None # fs \<Longrightarrow>
     driverCall f w = (Inr (fst (f (docs w))),
       w\<lparr>docs := snd (f (docs w)), faults := fs, calls := Suc (calls w)\<rparr>)"
  by (simp add: driverCall_def next_fault_def consume_def)

lemma ensureConnection_success:
  assumes "ensureConnection w = (Inr (), w0)"
  shows "connected w0"
  using assms
  by (auto simp: ensureConnection_def connected_def mongoose_connect_def driverCall_def
      split: if_splits prod.splits sum.splits option.splits)

lemma retry_loop_succeeds:
  assumes "connected w"
    and "faults w = map Some es @ None # rest"
    and "attempt + int (length es) = n"
  shows "retry_loop n d name (driverCall f) attempt le w =
     (Inr (fst (f (docs w))),
      w\<lparr>docs := snd (f (docs w)), faults := rest, calls := calls w + length es + 1,
        sleeps := sleeps w @ replicate (length es) d\<rparr>)"
  using assms
proof (induction es arbitrary: attempt le w)
  case Nil
  then show ?case
    by (subst retry_loop.simps) (simp add: tryBody_connected driverCall_ok)
next
  case (Cons e es)
  let ?w = "w\<lparr>faults := map Some es @ None # rest, calls := Suc (calls w), sleeps := sleeps w @ [d]\<rparr>"
  have step: "retry_loop n d name (driverCall f) attempt le w =
      retry_loop n d name (driverCall f) (attempt + 1) (Some e) ?w"
    using Cons.prems
    by (subst retry_loop.simps) (simp add: tryBody_connected driverCall_fault)
  have "connected ?w" using Cons.prems(1) by (simp add: connected_def)
  moreover have "faults ?w = map Some es @ None # rest" by simp
  moreover have "attempt + 1 + int (length es) = n" using Cons.prems(3) by simp
  ultimately have "retry_loop n d name (driverCall f) (attempt + 1) (Some e) ?w =
     (Inr (fst (f (docs ?w))),
      ?w\<lparr>docs := snd (f (docs ?w)), faults := rest, calls := calls ?w + length es + 1,
        sleeps := sleeps ?w @ replicate (length es) d\<rparr>)"
    by (rule Cons.IH)
  with step show ?case by (simp add: replicate_app_Cons_same)
qed

lemma retry_loop_exhausts:
  assumes "connected w"
    and "faults w = map Some es @ rest"
    and "es \<noteq> []"
    and "attempt + int (length es) = n + 1"
  shows "retry_loop n d name (driverCall f) attempt le w =
     (Inl (exhausted name n (Some (last es))),
      w\<lparr>faults := rest, calls := calls w + length es,
        sleeps := sleeps w @ replicate (length es - 1) d\<rparr>)"
  using assms
proof (induction es arbitrary: attempt le w)
  case Nil
  then show ?case by simp
next
  case (Cons e es)
  show ?case
  proof (cases es)
    case Nil
    with Cons.prems show ?thesis
      by (subst retry_loop.simps) (simp add: tryBody_connected driverCall_fault)
  next
    case (Cons e' es')
    let ?w = "w\<lparr>faults := map Some es @ rest, calls := Suc (calls w), sleeps := sleeps w @ [d]\<rparr>"
    have step: "retry_loop n d name (driverCall f) attempt le w =
        retry_loop n d name (driverCall f) (attempt + 1) (Some e) ?w"
      using Cons.prems Cons
      by (subst retry_loop.simps) (simp add: tryBody_connected driverCall_fault)
    have "connected ?w" using Cons.prems(1) by (simp add: connected_def)
    moreover have "faults ?w = map Some es @ rest" by simp
    moreover have "es \<noteq> []" using Cons by simp
    moreover have "attempt + 1 + int (length es) = n + 1" using Cons.prems(4) by simp
    ultimately have "retry_loop n d name (driverCall f) (attempt + 1) (Some e) ?w =
       (Inl (exhausted name n (Some (last es))),
        ?w\<lparr>faults := rest, calls := calls ?w + length es,
          sleeps := sleeps ?w @ replicate (length es - 1) d\<rparr>)"
      by (rule Cons.IH)
    with step Cons show ?thesis by (simp add: replicate_app_Cons_same)
  qed
qed

lemma retry_loop_first_connect:
  assumes "ensureConnection w = (Inr (), w0)" and "attempt \<le> n"
  shows "retry_loop n d name operation attempt le w = retry_loop n d name operation attempt le w0"
proof -
  have "tryBody operation w = tryBody operation w0"
    using assms(1) ensureConnection_success [OF assms(1)]
    by (simp add: tryBody_def ensureConnection_connected)
  then show ?thesis
    using assms(2)
    by (subst retry_loop.simps, subst (2) retry_loop.simps) simp
qed

text \<open>
  C3. Every storage operation of the gateway is a driver call run through
  \<^verbatim>\<open>executeWithRetry\<close>. With \<^verbatim>\<open>maxRetries\<close> at least 1 and the connection set up: if
  the driver fails the first \<^verbatim>\<open>maxRetries - 1\<close> calls and then succeeds, the
  operation returns the result of the call after exactly \<^verbatim>\<open>maxRetries\<close> calls and
  \<^verbatim>\<open>maxRetries - 1\<close> waits of \<^verbatim>\<open>retryRequestDelayMs\<close> each; if the driver fails
  \<^verbatim>\<open>maxRetries\<close> calls, the operation raises \<^verbatim>\<open>MongoConnectionError\<close> after exactly
  \<^verbatim>\<open>maxRetries\<close> calls and the same waits, with the last failure as its original
  error and a message made of the operation name and the attempt count.
\<close>

theorem executeWithRetry_attempts:
  assumes "1 \<le> maxRetries (config m)"
    and "ensureConnection w = (Inr (), w0)"
  shows "(faults w0 = map Some es @ None # rest \<and> int (length es) = maxRetries (config m) - 1 \<longrightarrow>
      executeWithRetry m (driverCall f) name w =
        (Inr (fst (f (docs w0))),
         w0\<lparr>docs := snd (f (docs w0)), faults := rest,
            calls := calls w0 + nat (maxRetries (config m)),
            sleeps := sleeps w0
              @ replicate (nat (maxRetries (config m) - 1)) (retryRequestDelayMs (config m))\<rparr>))
    \<and> (faults w0 = map Some es' @ rest' \<and> int (length es') = maxRetries (config m) \<longrightarrow>
      executeWithRetry m (driverCall f) name w =
        (Inl (MongoConnectionError
                (name @ '' failed after '' @ show_int (maxRetries (config m)) @ '' attempts'')
                (Some (last es'))),
         w0\<lparr>faults := rest', calls := calls w0 + nat (maxRetries (config m)),
            sleeps := sleeps w0
              @ replicate (nat (maxRetries (config m) - 1)) (retryRequestDelayMs (config m))\<rparr>))"
proof -
  let ?n = "maxRetries (config m)" and ?d = "retryRequestDelayMs (config m)"
  have conn: "connected w0"
    using assms(2) by (rule ensureConnection_success)
  have first: "executeWithRetry m (driverCall f) name w
      = retry_loop ?n ?d name (driverCall f) 1 None w0"
    unfolding executeWithRetry_def
    using assms by (intro retry_loop_first_connect) simp_all
  have ok: "retry_loop ?n ?d name (driverCall f) 1 None w0 =
        (Inr (fst (f (docs w0))),
         w0\<lparr>docs := snd (f (docs w0)), faults := rest, calls := calls w0 + nat ?n,
            sleeps := sleeps w0 @ replicate (nat (?n - 1)) ?d\<rparr>)"
    if "faults w0 = map Some es @ None # rest" "int (length es) = ?n - 1"
  proof -
    have len: "length es = nat (?n - 1)" "length es + 1 = nat ?n"
      using that(2) assms(1) by linarith+
    have "1 + int (length es) = ?n" using that(2) by simp
    from retry_loop_succeeds [OF conn that(1) this, of ?d name f None] len
    show ?thesis by simp
  qed
  have ko: "retry_loop ?n ?d name (driverCall f) 1 None w0 =
        (Inl (exhausted name ?n (Some (last es'))),
         w0\<lparr>faults := rest', calls := calls w0 + nat ?n,
            sleeps := sleeps w0 @ replicate (nat (?n - 1)) ?d\<rparr>)"
    if "faults w0 = map Some es' @ rest'" "int (length es') = ?n"
  proof -
    have len: "length es' - 1 = nat (?n - 1)" "length es' = nat ?n"
      using that(2) assms(1) by linarith+
    have ne: "es' \<noteq> []" using that(2) assms(1) by auto
    have "1 + int (length es') = ?n + 1" using that(2) by simp
    from retry_loop_exhausts [OF conn that(1) ne this, of ?d name f None] len
    show ?thesis by simp
  qed
  show ?thesis
    using ok ko by (simp add: first exhausted_def)
qed

theorem executeWithRetry_attempts_witness:
  "1 \<le> maxRetries (config (test_manager ''s'' 3))
   \<and> ensureConnection (fresh_world\<lparr>faults := [None, Some (DriverError ''e1''), Some (DriverError ''e2''), None]\<rparr>)
     = (Inr (), fresh_world\<lparr>isConnected := True, readyState := 1, calls := 1,
          faults := [Some (DriverError ''e1''), Some (DriverError ''e2''), None]\<rparr>)
   \<and> executeWithRetry (test_manager ''s'' 3) (driverCall (\<lambda>d. (d ''k'', d))) ''Query document k''
        (fresh_world\<lparr>faults := [None, Some (DriverError ''e1''), Some (DriverError ''e2''), None]\<rparr>)
     = (Inr None, fresh_world\<lparr>isConnected := True, readyState := 1, calls := 4, faults := [],
          sleeps := [200, 200]\<rparr>)
   \<and> ensureConnection (fresh_world\<lparr>faults := [None, Some (DriverError ''e1''), Some (DriverError ''e2''), Some (DriverError ''e3''), None]\<rparr>)
     = (Inr (), fresh_world\<lparr>isConnected := True, readyState := 1, calls := 1,
          faults := [Some (DriverError ''e1''), Some (DriverError ''e2''), Some (DriverError ''e3''), None]\<rparr>)
   \<and> executeWithRetry (test_manager ''s'' 3) (driverCall (\<lambda>d. (d ''k'', d))) ''Query document k''
        (fresh_world\<lparr>faults := [None, Some (DriverError ''e1''), Some (DriverError ''e2''), Some (DriverError ''e3''), None]\<rparr>)
     = (Inl (MongoConnectionError ''Query document k failed after 3 attempts'' (Some (DriverError ''e3''))),
        fresh_world\<lparr>isConnected := True, readyState := 1, calls := 4, faults := [None],
          sleeps := [200, 200]\<rparr>)"
proof -
  let ?m = "test_manager ''s'' 3"
  let ?w1 = "fresh_world\<lparr>faults := [None, Some (DriverError ''e1''), Some (DriverError ''e2''), None]\<rparr>"
  let ?v1 = "fresh_world\<lparr>isConnected := True, readyState := 1, calls := 1,
          faults := [Some (DriverError ''e1''), Some (DriverError ''e2''), None]\<rparr>"
  let ?w2 = "fresh_world\<lparr>faults := [None, Some (DriverError ''e1''), Some (DriverError ''e2''), Some (DriverError ''e3''), None]\<rparr>"
  let ?v2 = "fresh_world\<lparr>isConnected := True, readyState := 1, calls := 1,
          faults := [Some (DriverError ''e1''), Some (DriverError ''e2''), Some (DriverError ''e3''), None]\<rparr>"
  have n: "1 \<le> maxRetries (config ?m)" "maxRetries (config ?m) = 3" "retryRequestDelayMs (config ?m) = 200"
    by (simp_all add: test_manager_def test_config_def resolveConfig_def or_int_def)
  have c1: "ensureConnection ?w1 = (Inr (), ?v1)"
    by (simp add: ensureConnection_def connected_def mongoose_connect_def driverCall_def
        next_fault_def consume_def fresh_world_def)
  have c2: "ensureConnection ?w2 = (Inr (), ?v2)"
    by (simp add: ensureConnection_def connected_def mongoose_connect_def driverCall_def
        next_fault_def consume_def fresh_world_def)
  have s3: "show_int 3 = ''3''"
    by (simp add: show_int_def show_nat.simps digit_char_def)
  show ?thesis
    using executeWithRetry_attempts [OF n(1) c1,
        of "[DriverError ''e1'', DriverError ''e2'']" "[]" "\<lambda>d. (d ''k'', d)" "''Query document k''" "[]" "[]"]
      executeWithRetry_attempts [OF n(1) c2,
        of "[]" "[]" "\<lambda>d. (d ''k'', d)" "''Query document k''"
           "[DriverError ''e1'', DriverError ''e2'', DriverError ''e3'']" "[None]"]
      n c1 c2 s3
    by (simp add: fresh_world_def numeral_3_eq_3 numeral_2_eq_2)
qed

section \<open>What a retried driver call does to the collection\<close>

lemma ensureConnection_docs: "ensureConnection w = (r, w') \<Longrightarrow> docs w' = docs w"
  by (auto simp: ensureConnection_def mongoose_connect_def driverCall_def consume_def
      split: if_splits prod.splits sum.splits option.splits)

lemma driverCall_result:
  assumes "driverCall f w = (r, w')"
  shows "case r of Inl e \<Rightarrow> docs w' = docs w
                 | Inr v \<Rightarrow> v = fst (f (docs w)) \<and> docs w' = snd (f (docs w))"
  using assms
  by (auto simp: driverCall_def consume_def split: option.splits)

lemma tryBody_driver_result:
  assumes "tryBody (driverCall f) w = (r, w')"
  shows "case r of Inl e \<Rightarrow> docs w' = docs w
                 | Inr v \<Rightarrow> v = fst (f (docs w)) \<and> docs w' = snd (f (docs w))"
proof (cases "ensureConnection w")
  case (Pair c w1)
  then have d: "docs w1 = docs w" by (rule ensureConnection_docs)
  show ?thesis
  proof (cases c)
    case (Inl e)
    with Pair assms d show ?thesis by (auto simp: tryBody_def)
  next
    case (Inr u)
    with Pair assms have "driverCall f w1 = (r, w')" by (simp add: tryBody_def)
    from driverCall_result [OF this, unfolded d] show ?thesis .
  qed
qed

lemma retry_loop_result:
  assumes op: "\<And>w r w'. tryBody operation w = (r, w') \<Longrightarrow>
      (case r of Inl e \<Rightarrow> docs w' = docs w | Inr v \<Rightarrow> R (docs w) v (docs w'))"
    and run: "retry_loop n d name operation attempt le w = (r, w')"
  shows "case r of Inl e \<Rightarrow> docs w' = docs w | Inr v \<Rightarrow> R (docs w) v (docs w')"
  using run op
proof (induction n d name operation attempt le w rule: retry_loop.induct)
  case (1 n d name operation attempt le w)
  note run = "1.prems"(1) and op = "1.prems"(2)
  show ?case
  proof (cases "attempt \<le> n")
    case False
    with run show ?thesis
      by (subst (asm) retry_loop.simps) auto
  next
    case True
    obtain x w1 where tb: "tryBody operation w = (x, w1)"
      by (cases "tryBody operation w")
    note res = op [OF tb]
    show ?thesis
    proof (cases x)
      case (Inr v)
      with run True tb have "r = Inr v \<and> w' = w1"
        by (subst (asm) retry_loop.simps) auto
      with res Inr show ?thesis by simp
    next
      case (Inl e)
      with res have d1: "docs w1 = docs w" by simp
      show ?thesis
      proof (cases "attempt < n")
        case False
        with run True tb Inl have "r = Inl (exhausted name n (Some e)) \<and> w' = w1"
          by (subst (asm) retry_loop.simps) auto
        with d1 show ?thesis by simp
      next
        case lt: True
        with run True tb Inl
        have rec: "retry_loop n d name operation (attempt + 1) (Some e)
              (w1\<lparr>sleeps := sleeps w1 @ [d]\<rparr>) = (r, w')"
          by (subst (asm) retry_loop.simps) simp
        from "1.IH" [OF True tb [symmetric] Inl lt rec op] d1
        show ?thesis by (auto split: sum.splits)
      qed
    qed
  qed
qed

lemma executeWithRetry_driver_result:
  assumes "executeWithRetry m (driverCall f) name w = (r, w')"
  shows "case r of Inl e \<Rightarrow> docs w' = docs w
                 | Inr v \<Rightarrow> v = fst (f (docs w)) \<and> docs w' = snd (f (docs w))"
  using assms unfolding executeWithRetry_def
  by (rule retry_loop_result [where R = "\<lambda>d v d'. v = fst (f d) \<and> d' = snd (f d)", rotated])
    (rule tryBody_driver_result)

lemmas gateway_eval =
  clearSessionData_def removeAllSessionData_def removeData_def writeData_def queryDocument_def
  readData_def executeWithRetry_def retry_loop.simps tryBody_def ensureConnection_def
  connected_def mongoose_connect_def deleteMany_def deleteOne_def updateOne_upsert_def
  findById_def driverCall_def next_fault_def consume_def fullId_def dataKey_def keys_get_def
  fresh_world_def test_manager_def test_config_def resolveConfig_def or_int_def or_string_def
  or_bool_def

section \<open>Clearing a session\<close>

lemma constructed_prefix:
  "newMongoSessionManager uri c = Inr m \<Longrightarrow> sessionPrefix m = session (config m) @ ''-''"
  by (auto simp: newMongoSessionManager_def split: if_splits)

lemma deleteMany_success:
  assumes "executeWithRetry m (deleteMany p) name w = (Inr u, w')"
  shows "docs w' k = (if (\<exists>x. docs w k = Some x \<and> p k x) then None else docs w k)"
  using executeWithRetry_driver_result [OF assms [unfolded deleteMany_def]]
  by (auto split: option.splits)

text \<open>
  C8. For a manager built by the constructor and every stored state: when
  \<^verbatim>\<open>clearSessionData\<close> returns, exactly the records whose \<^verbatim>\<open>session\<close> field is the
  configured session are gone, except the record under the key
  \<^verbatim>\<open>session + "-creds"\<close>, and every other record is as it was; when
  \<^verbatim>\<open>removeAllSessionData\<close> returns, exactly the records whose \<^verbatim>\<open>session\<close> field is
  the configured session are gone, the credentials record too, and every other
  record is as it was.
\<close>

theorem clear_and_removeAll:
  assumes "newMongoSessionManager uri c = Inr m"
  shows "(clearSessionData m w = (Inr (), w') \<longrightarrow>
          (\<forall>k. docs w' k =
             (if (\<exists>x. docs w k = Some x \<and> doc_session x = session (config m))
                 \<and> k \<noteq> session (config m) @ ''-creds''
              then None else docs w k)))
       \<and> (removeAllSessionData m w = (Inr (), w'') \<longrightarrow>
          (\<forall>k. docs w'' k =
             (if (\<exists>x. docs w k = Some x \<and> doc_session x = session (config m))
              then None else docs w k)))"
  using constructed_prefix [OF assms]
  by (auto simp: clearSessionData_def removeAllSessionData_def deleteMany_success)

theorem clear_and_removeAll_witness:
  "newMongoSessionManager ''mongodb://localhost:27017/whatsapp'' (test_config ''s'' 3)
     = Inr (test_manager ''s'' 3)
   \<and> clearSessionData (test_manager ''s'' 3) three_records
     = (Inr (), snd (clearSessionData (test_manager ''s'' 3) three_records))
   \<and> docs (snd (clearSessionData (test_manager ''s'' 3) three_records)) ''s-session-1'' = None
   \<and> docs (snd (clearSessionData (test_manager ''s'' 3) three_records)) ''s-creds''
     = Some \<lparr>doc_value = Doc (JsonObj []), doc_session = ''s''\<rparr>
   \<and> docs (snd (clearSessionData (test_manager ''s'' 3) three_records)) ''t-session-1''
     = Some \<lparr>doc_value = Doc (JsonNum 2), doc_session = ''t''\<rparr>
   \<and> removeAllSessionData (test_manager ''s'' 3) three_records
     = (Inr (), snd (removeAllSessionData (test_manager ''s'' 3) three_records))
   \<and> docs (snd (removeAllSessionData (test_manager ''s'' 3) three_records)) ''s-session-1'' = None
   \<and> docs (snd (removeAllSessionData (test_manager ''s'' 3) three_records)) ''s-creds'' = None
   \<and> docs (snd (removeAllSessionData (test_manager ''s'' 3) three_records)) ''t-session-1''
     = Some \<lparr>doc_value = Doc (JsonNum 2), doc_session = ''t''\<rparr>"
proof -
  let ?m = "test_manager ''s'' 3"
  have c: "newMongoSessionManager ''mongodb://localhost:27017/whatsapp'' (test_config ''s'' 3)
      = Inr ?m"
    by (simp add: newMongoSessionManager_def test_config_def test_manager_def resolveConfig_def
        isValidSessionId_def isValidCollectionName_def identifier_chars_def startsWith_def
        or_string_def or_int_def or_bool_def)
  have s: "session (config ?m) = ''s''"
    by (simp add: test_manager_def test_config_def resolveConfig_def)
  have h1: "clearSessionData ?m three_records = (Inr (), snd (clearSessionData ?m three_records))"
    by (simp add: prod_eq_iff gateway_eval three_records_def)
  have h2: "removeAllSessionData ?m three_records
      = (Inr (), snd (removeAllSessionData ?m three_records))"
    by (simp add: prod_eq_iff gateway_eval three_records_def)
  from clear_and_removeAll [OF c, of three_records "snd (clearSessionData ?m three_records)"
      "snd (removeAllSessionData ?m three_records)"] h1 h2
  have k1: "\<And>k. docs (snd (clearSessionData ?m three_records)) k =
             (if (\<exists>x. docs three_records k = Some x \<and> doc_session x = ''s'')
                 \<and> k \<noteq> ''s-creds''
              then None else docs three_records k)"
    and k2: "\<And>k. docs (snd (removeAllSessionData ?m three_records)) k =
             (if (\<exists>x. docs three_records k = Some x \<and> doc_session x = ''s'')
              then None else docs three_records k)"
    by (simp_all add: s)
  have d: "docs three_records ''s-session-1''
        = Some \<lparr>doc_value = Doc (JsonNum 1), doc_session = ''s''\<rparr>"
      "docs three_records ''s-creds'' = Some \<lparr>doc_value = Doc (JsonObj []), doc_session = ''s''\<rparr>"
      "docs three_records ''t-session-1''
        = Some \<lparr>doc_value = Doc (JsonNum 2), doc_session = ''t''\<rparr>"
    by (simp_all add: three_records_def fresh_world_def)
  show ?thesis
    using c h1 h2 by (simp add: k1 k2 d)
qed

section \<open>Absent keys\<close>






section \<open>Partial failure in the key store\<close>

lemma get_loop_step:
  "get_loop rt m c (ident # ids) data w =
     get_loop rt m c ids (data(ident \<mapsto> fst (get_one rt m c ident w))) (snd (get_one rt m c ident w))"
proof (cases "readData rt m (dataKey c ident) w")
  case (Pair r w')
  show ?thesis
  proof (cases r)
    case (Inl e)
    with Pair show ?thesis by (simp add: get_one_def)
  next
    case (Inr v)
    show ?thesis
    proof (cases "fromObject rt v")
      case (Inl e)
      with Pair Inr show ?thesis by (simp add: get_one_def)
    next
      case r2: (Inr v')
      with Pair Inr show ?thesis by (simp add: get_one_def)
    qed
  qed
qed

declare get_loop.simps(2) [simp del]

lemma get_loop_acc:
  "get_loop rt m c ids data w
     = (data ++ fst (get_loop rt m c ids Map.empty w), snd (get_loop rt m c ids Map.empty w))"
proof (induction ids arbitrary: data w)
  case Nil
  then show ?case by simp
next
  case (Cons ident ids)
  let ?x = "fst (get_one rt m c ident w)" and ?w = "snd (get_one rt m c ident w)"
  let ?G = "get_loop rt m c ids Map.empty ?w"
  have l: "get_loop rt m c (ident # ids) data w = ((data(ident \<mapsto> ?x)) ++ fst ?G, snd ?G)"
    unfolding get_loop_step by (rule Cons.IH)
  have r: "get_loop rt m c (ident # ids) Map.empty w = ([ident \<mapsto> ?x] ++ fst ?G, snd ?G)"
    unfolding get_loop_step by (rule Cons.IH)
  have "(data(ident \<mapsto> ?x)) ++ fst ?G = data ++ ([ident \<mapsto> ?x] ++ fst ?G)"
    by (rule ext) (simp add: map_add_def split: option.splits)
  then show ?case by (simp only: l r fst_conv snd_conv)
qed

lemma get_loop_append:
  "get_loop rt m c (ids1 @ ids2) data w
     = get_loop rt m c ids2 (fst (get_loop rt m c ids1 data w)) (snd (get_loop rt m c ids1 data w))"
proof (induction ids1 arbitrary: data w)
  case Nil
  then show ?case by simp
next
  case (Cons ident ids1)
  show ?case
    unfolding append_Cons get_loop_step by (rule Cons.IH)
qed

lemma keys_get_failed_read:
  assumes "keys_get rt m c ids1 w = (data1, w1)"
    and "readData rt m (dataKey c ident) w1 = (Inl e, w2)"
    and "keys_get rt m c ids2 w2 = (data2, w3)"
  shows "keys_get rt m c (ids1 @ ident # ids2) w = ((data1(ident \<mapsto> JNull)) ++ data2, w3)"
proof -
  have one: "get_one rt m c ident w1 = (JNull, w2)"
    using assms(2) by (simp add: get_one_def)
  have g1: "get_loop rt m c ids1 Map.empty w = (data1, w1)"
    using assms(1) by (simp only: keys_get_def)
  have g2: "get_loop rt m c ids2 Map.empty w2 = (data2, w3)"
    using assms(3) by (simp only: keys_get_def)
  have "keys_get rt m c (ids1 @ ident # ids2) w
      = get_loop rt m c (ident # ids2) data1 w1"
    by (simp only: keys_get_def get_loop_append g1 fst_conv snd_conv)
  also have "\<dots> = get_loop rt m c ids2 (data1(ident \<mapsto> JNull)) w2"
    by (simp only: get_loop_step one fst_conv snd_conv)
  also have "\<dots> = ((data1(ident \<mapsto> JNull)) ++ data2, w3)"
    by (subst get_loop_acc) (simp only: g2 fst_conv snd_conv)
  finally show ?thesis .
qed

lemma set_ids_append:
  "set_ids rt m c (us1 @ us2) w =
     (case set_ids rt m c us1 w of
        (Inl e, w') \<Rightarrow> (Inl e, w')
      | (Inr u, w') \<Rightarrow> set_ids rt m c us2 w')"
proof (induction us1 arbitrary: w)
  case Nil
  then show ?case by simp
next
  case (Cons iv us1)
  obtain ident v where iv: "iv = (ident, v)" by (cases iv)
  show ?case
    unfolding iv by (simp add: Cons.IH split: prod.splits sum.splits)
qed

lemma keys_set_append:
  "keys_set rt m (cs1 @ cs2) w =
     (case keys_set rt m cs1 w of
        (Inl e, w') \<Rightarrow> (Inl e, w')
      | (Inr u, w') \<Rightarrow> keys_set rt m cs2 w')"
proof (induction cs1 arbitrary: w)
  case Nil
  then show ?case by simp
next
  case (Cons cd cs1)
  obtain c d where cd: "cd = (c, d)" by (cases cd)
  show ?case
    unfolding cd by (cases d) (simp_all add: Cons.IH split: prod.splits sum.splits)
qed

lemma keys_set_failed_update:
  assumes "keys_set rt m (cs1 @ [(c, Some us1)]) w = (Inr (), v1)"
    and "(if truthy x then writeData rt m (dataKey c ident) x v1
          else removeData m (dataKey c ident) v1) = (Inl e, v2)"
  shows "keys_set rt m (cs1 @ (c, Some (us1 @ (ident, x) # us2)) # cs2) w = (Inl e, v2)"
proof -
  obtain r0 w0 where p: "keys_set rt m cs1 w = (r0, w0)"
    by (cases "keys_set rt m cs1 w")
  from assms(1) p have r0: "r0 = Inr ()" and ids: "fst (set_ids rt m c us1 w0) = Inr ()"
    and v1: "snd (set_ids rt m c us1 w0) = v1"
    by (auto simp: keys_set_append split: sum.splits prod.splits)
  have "set_ids rt m c (us1 @ (ident, x) # us2) w0 = (Inl e, v2)"
    using ids v1 assms(2)
    by (cases "set_ids rt m c us1 w0") (simp add: set_ids_append)
  with p r0 show ?thesis
    by (simp add: keys_set_append)
qed

text \<open>
  C4. \<^verbatim>\<open>keys.get\<close>: when the read of one id fails, after the ids before it gave
  \<open>data1\<close>, the failure is caught, the id maps to \<^verbatim>\<open>null\<close>, and the ids after it are
  read as they would be from the state the failed read left, their entries added to
  the result. \<^verbatim>\<open>keys.set\<close>: when the write or delete of one entry fails, after the
  entries before it succeeded, the call raises that error in the state the failed
  update left; the later entries of the category and the later categories are not
  applied.
\<close>

theorem get_isolates_set_aborts:
  "(keys_get rt m c ids1 w = (data1, w1)
      \<and> readData rt m (dataKey c ident) w1 = (Inl e, w2)
      \<and> keys_get rt m c ids2 w2 = (data2, w3)
    \<longrightarrow> keys_get rt m c (ids1 @ ident # ids2) w = ((data1(ident \<mapsto> JNull)) ++ data2, w3))
   \<and> (keys_set rt m (cs1 @ [(c', Some us1)]) v = (Inr (), v1)
      \<and> (if truthy x then writeData rt m (dataKey c' ident') x v1
           else removeData m (dataKey c' ident') v1) = (Inl e', v2)
    \<longrightarrow> keys_set rt m (cs1 @ (c', Some (us1 @ (ident', x) # us2)) # cs2) v = (Inl e', v2))"
  using keys_get_failed_read [of rt m c ids1 w data1 w1 ident e w2 ids2 data2 w3]
    keys_set_failed_update [of rt m cs1 c' us1 v v1 x ident' e' v2 us2 cs2]
  by blast

lemmas codec_eval =
  get_loop.simps get_one_def truthy_def reviver_def get_prop_def rethrow_read_def exhausted_def
  show_int_def show_nat.simps digit_char_def replacer_data_def

theorem get_isolates_set_aborts_witness:
  "readData stub_runtime (test_manager ''s'' 1) (dataKey Session ''b'')
       (snd (keys_get stub_runtime (test_manager ''s'' 1) Session [''a''] abc_records))
     = (Inl (MongoConnectionError ''Query document session-b failed after 1 attempts''
               (Some (DriverError ''down''))),
        snd (readData stub_runtime (test_manager ''s'' 1) (dataKey Session ''b'')
               (snd (keys_get stub_runtime (test_manager ''s'' 1) Session [''a''] abc_records))))
   \<and> fst (keys_get stub_runtime (test_manager ''s'' 1) Session [''a'', ''b'', ''c''] abc_records)
     = [''a'' \<mapsto> JNum (Num 1), ''b'' \<mapsto> JNull, ''c'' \<mapsto> JNum (Num 3)]
   \<and> keys_set stub_runtime (test_manager ''s'' 1) [(Session, Some [(''a'', JObj [])])] flaky_world
     = (Inr (), snd (keys_set stub_runtime (test_manager ''s'' 1)
                       [(Session, Some [(''a'', JObj [])])] flaky_world))
   \<and> writeData stub_runtime (test_manager ''s'' 1) (dataKey Session ''b'') (JObj [])
       (snd (keys_set stub_runtime (test_manager ''s'' 1)
               [(Session, Some [(''a'', JObj [])])] flaky_world))
     = (Inl (MongoConnectionError ''Write data session-b failed after 1 attempts''
               (Some (DriverError ''down''))),
        snd (writeData stub_runtime (test_manager ''s'' 1) (dataKey Session ''b'') (JObj [])
               (snd (keys_set stub_runtime (test_manager ''s'' 1)
                       [(Session, Some [(''a'', JObj [])])] flaky_world))))
   \<and> fst (keys_set stub_runtime (test_manager ''s'' 1)
            [(Session, Some [(''a'', JObj []), (''b'', JObj []), (''c'', JObj [])])] flaky_world)
     = Inl (MongoConnectionError ''Write data session-b failed after 1 attempts''
              (Some (DriverError ''down'')))
   \<and> docs (snd (keys_set stub_runtime (test_manager ''s'' 1)
            [(Session, Some [(''a'', JObj []), (''b'', JObj []), (''c'', JObj [])])] flaky_world))
        ''s-session-c'' = None"
proof -
  let ?m = "test_manager ''s'' 1" and ?rt = stub_runtime
  let ?g1 = "keys_get ?rt ?m Session [''a''] abc_records"
  let ?rd = "readData ?rt ?m (dataKey Session ''b'') (snd ?g1)"
  let ?g2 = "keys_get ?rt ?m Session [''c''] (snd ?rd)"
  let ?e = "MongoConnectionError ''Query document session-b failed after 1 attempts''
               (Some (DriverError ''down''))"
  let ?s1 = "keys_set ?rt ?m [(Session, Some [(''a'', JObj [])])] flaky_world"
  let ?wr = "writeData ?rt ?m (dataKey Session ''b'') (JObj []) (snd ?s1)"
  let ?e' = "MongoConnectionError ''Write data session-b failed after 1 attempts''
               (Some (DriverError ''down''))"
  have w1: "snd ?g1 = fresh_world\<lparr>docs := docs abc_records, isConnected := True, readyState := 1,
      faults := [Some (DriverError ''down''), None], calls := 2\<rparr>"
    and d1: "fst ?g1 = [''a'' \<mapsto> JNum (Num 1)]"
    by (simp_all add: gateway_eval codec_eval abc_records_def)
  have rd: "?rd = (Inl ?e, fresh_world\<lparr>docs := docs abc_records, isConnected := True,
      readyState := 1, faults := [None], calls := 3\<rparr>)"
    unfolding w1 by (simp add: gateway_eval codec_eval abc_records_def)
  have g2: "?g2 = ([''c'' \<mapsto> JNum (Num 3)], fresh_world\<lparr>docs := docs abc_records,
      isConnected := True, readyState := 1, faults := [], calls := 4\<rparr>)"
    unfolding rd snd_conv by (simp add: gateway_eval codec_eval abc_records_def)
  have s1: "?s1 = (Inr (), fresh_world\<lparr>docs :=
        [''s-session-a'' \<mapsto> \<lparr>doc_value = Doc (JsonObj []), doc_session = ''s''\<rparr>],
      isConnected := True, readyState := 1, faults := [Some (DriverError ''down'')], calls := 2\<rparr>)"
    by (simp add: gateway_eval codec_eval flaky_world_def)
  have wr: "?wr = (Inl ?e', fresh_world\<lparr>docs :=
        [''s-session-a'' \<mapsto> \<lparr>doc_value = Doc (JsonObj []), doc_session = ''s''\<rparr>],
      isConnected := True, readyState := 1, faults := [], calls := 3\<rparr>)"
    unfolding s1 snd_conv by (simp add: gateway_eval codec_eval)
  have h2: "?rd = (Inl ?e, snd ?rd)"
    by (simp only: rd snd_conv)
  have tr: "truthy (JObj [])"
    by (simp add: truthy_def)
  have c3: "?s1 = (Inr (), snd ?s1)"
    by (simp only: s1 snd_conv)
  have c4: "?wr = (Inl ?e', snd ?wr)"
    by (simp only: wr snd_conv)
  have h5: "(if truthy (JObj []) then ?wr else removeData ?m (dataKey Session ''b'') (snd ?s1))
      = (Inl ?e', snd ?wr)"
    using c4 by (simp only: tr if_True)
  have p1: "?g1 = (fst ?g1, snd ?g1)" and p3: "?g2 = (fst ?g2, snd ?g2)"
    by (rule prod.collapse [symmetric])+
  have get: "keys_get ?rt ?m Session ([''a''] @ ''b'' # [''c'']) abc_records
      = (((fst ?g1)(''b'' \<mapsto> JNull)) ++ fst ?g2, snd ?g2)"
    by (rule mp [OF get_isolates_set_aborts [where rt = ?rt and m = ?m and c = Session
          and ?ids1.0 = "[''a'']" and w = abc_records and ?data1.0 = "fst ?g1"
          and ?w1.0 = "snd ?g1" and ident = "''b''" and e = ?e and ?w2.0 = "snd ?rd"
          and ?ids2.0 = "[''c'']" and ?data2.0 = "fst ?g2" and ?w3.0 = "snd ?g2",
          THEN conjunct1]])
      (intro conjI p1 h2 p3)
  have c3': "keys_set ?rt ?m ([] @ [(Session, Some [(''a'', JObj [])])]) flaky_world
      = (Inr (), snd ?s1)"
    using c3 by (simp only: append_Nil)
  have set: "keys_set ?rt ?m ([] @ (Session, Some ([(''a'', JObj [])] @ (''b'', JObj []) # [(''c'', JObj [])])) # []) flaky_world
      = (Inl ?e', snd ?wr)"
    by (rule mp [OF get_isolates_set_aborts [where rt = ?rt and m = ?m and ?cs1.0 = "[]"
          and c' = Session and ?us1.0 = "[(''a'', JObj [])]" and v = flaky_world
          and ?v1.0 = "snd ?s1" and x = "JObj []" and ident' = "''b''" and e' = ?e'
          and ?v2.0 = "snd ?wr" and ?us2.0 = "[(''c'', JObj [])]" and ?cs2.0 = "[]",
          THEN conjunct2]])
      (intro conjI c3' h5)
  have maps: "((fst ?g1)(''b'' \<mapsto> JNull)) ++ fst ?g2
      = [''a'' \<mapsto> JNum (Num 1), ''b'' \<mapsto> JNull, ''c'' \<mapsto> JNum (Num 3)]"
    by (simp add: d1 g2)
  have c2: "fst (keys_get ?rt ?m Session [''a'', ''b'', ''c''] abc_records)
      = [''a'' \<mapsto> JNum (Num 1), ''b'' \<mapsto> JNull, ''c'' \<mapsto> JNum (Num 3)]"
    using get maps by (simp only: append.simps fst_conv)
  have set': "keys_set ?rt ?m
      [(Session, Some [(''a'', JObj []), (''b'', JObj []), (''c'', JObj [])])] flaky_world
      = (Inl ?e', snd ?wr)"
    using set by (simp only: append.simps)
  have c5: "fst (keys_set ?rt ?m
      [(Session, Some [(''a'', JObj []), (''b'', JObj []), (''c'', JObj [])])] flaky_world)
      = Inl ?e'"
    by (simp only: set' fst_conv)
  have c6: "docs (snd (keys_set ?rt ?m
      [(Session, Some [(''a'', JObj []), (''b'', JObj []), (''c'', JObj [])])] flaky_world))
        ''s-session-c'' = None"
    unfolding set' snd_conv wr by simp
  show ?thesis
    by (intro conjI h2 c2 c3 c4 c5 c6)
qed

section \<open>Writing a key and reading it back\<close>
















section \<open>The collection name\<close>

lemma same_store_gateway:
  assumes "same_store m m'"
  shows "executeWithRetry m' = executeWithRetry m" "fullId m' = fullId m"
    "queryDocument m' = queryDocument m" "readData rt m' = readData rt m"
    "writeData rt m' = writeData rt m" "removeData m' = removeData m"
    "clearSessionData m' = clearSessionData m" "removeAllSessionData m' = removeAllSessionData m"
proof -
  show e: "executeWithRetry m' = executeWithRetry m"
    using assms by (intro ext) (simp add: executeWithRetry_def same_store_def)
  show f: "fullId m' = fullId m"
    using assms by (intro ext) (simp add: fullId_def same_store_def)
  show q: "queryDocument m' = queryDocument m"
    by (intro ext) (simp add: queryDocument_def e f)
  show "readData rt m' = readData rt m"
    by (intro ext) (simp add: readData_def q)
  show "writeData rt m' = writeData rt m"
    using assms by (intro ext) (simp add: writeData_def e f same_store_def)
  show "removeData m' = removeData m"
    by (intro ext) (simp add: removeData_def e f)
  show "clearSessionData m' = clearSessionData m"
    using assms by (intro ext) (simp add: clearSessionData_def e same_store_def)
  show "removeAllSessionData m' = removeAllSessionData m"
    using assms by (intro ext) (simp add: removeAllSessionData_def e same_store_def)
qed

lemma same_store_get_loop:
  assumes "same_store m m'"
  shows "get_loop rt m' c ids data w = get_loop rt m c ids data w"
  by (induction ids arbitrary: data w)
    (simp_all add: get_loop.simps same_store_gateway [OF assms] split: prod.splits sum.splits)

lemma same_store_set_ids:
  assumes "same_store m m'"
  shows "set_ids rt m' c us w = set_ids rt m c us w"
proof (induction us arbitrary: w)
  case Nil
  then show ?case by simp
next
  case (Cons iv us)
  obtain ident v where iv: "iv = (ident, v)" by (cases iv)
  show ?case
    unfolding iv
    by (simp add: Cons.IH same_store_gateway [OF assms] split: prod.splits sum.splits)
qed

lemma same_store_keys_set:
  assumes "same_store m m'"
  shows "keys_set rt m' delta w = keys_set rt m delta w"
proof (induction delta arbitrary: w)
  case Nil
  then show ?case by simp
next
  case (Cons cd delta)
  obtain c d where cd: "cd = (c, d)" by (cases cd)
  show ?case
    unfolding cd
    by (cases d) (simp_all add: Cons.IH same_store_set_ids [OF assms] split: prod.splits sum.splits)
qed

lemma same_store_perform:
  assumes "same_store m m'"
  shows "perform rt m' r w = perform rt m r w"
  by (cases r)
    (simp_all add: same_store_gateway [OF assms] same_store_keys_set [OF assms] keys_get_def
      same_store_get_loop [OF assms])

lemma same_store_run:
  assumes "same_store m m'"
  shows "run rt m' rs w = run rt m rs w"
  by (induction rs arbitrary: w) (simp_all add: same_store_perform [OF assms])

lemma constructed_same_store:
  assumes "newMongoSessionManager uri cfg = Inr m"
    and "newMongoSessionManager uri (cfg\<lparr>opt_collectionName := cn\<rparr>) = Inr m'"
  shows "same_store m m'"
  using assms
  by (auto simp: newMongoSessionManager_def resolveConfig_def same_store_def split: if_splits)

text \<open>
  C10. Two managers built from configurations that differ only in
  \<^verbatim>\<open>collectionName\<close> give, for every sequence of read, write, delete, clear,
  \<^verbatim>\<open>keys.get\<close> and \<^verbatim>\<open>keys.set\<close> operations from every state, the same results and
  the same final state: the name is checked by the constructor and read by no
  operation.
\<close>

theorem collectionName_unused:
  assumes "newMongoSessionManager uri cfg = Inr m"
    and "newMongoSessionManager uri (cfg\<lparr>opt_collectionName := cn\<rparr>) = Inr m'"
  shows "run rt m' requests w = run rt m requests w"
  using constructed_same_store [OF assms] by (rule same_store_run)

theorem collectionName_unused_witness:
  "newMongoSessionManager ''mongodb://localhost:27017/whatsapp'' (test_config ''s'' 3)
     = Inr (test_manager ''s'' 3)
   \<and> newMongoSessionManager ''mongodb://localhost:27017/whatsapp''
       ((test_config ''s'' 3)\<lparr>opt_collectionName := Some ''whatsapp_sessions''\<rparr>)
     = Inr ((test_manager ''s'' 3)\<lparr>config :=
              (config (test_manager ''s'' 3))\<lparr>collectionName := ''whatsapp_sessions''\<rparr>\<rparr>)
   \<and> (test_manager ''s'' 3)\<lparr>config :=
              (config (test_manager ''s'' 3))\<lparr>collectionName := ''whatsapp_sessions''\<rparr>\<rparr>
     \<noteq> test_manager ''s'' 3
   \<and> run stub_runtime
       ((test_manager ''s'' 3)\<lparr>config :=
              (config (test_manager ''s'' 3))\<lparr>collectionName := ''whatsapp_sessions''\<rparr>\<rparr>)
       [WriteData ''creds'' (JObj []), KeysGet Session [''1''], ClearSessionData] three_records
     = run stub_runtime (test_manager ''s'' 3)
       [WriteData ''creds'' (JObj []), KeysGet Session [''1''], ClearSessionData] three_records"
proof -
  have c1: "newMongoSessionManager ''mongodb://localhost:27017/whatsapp'' (test_config ''s'' 3)
      = Inr (test_manager ''s'' 3)"
    by (simp add: newMongoSessionManager_def test_config_def test_manager_def resolveConfig_def
        isValidSessionId_def isValidCollectionName_def identifier_chars_def startsWith_def
        or_string_def or_int_def or_bool_def)
  have c2: "newMongoSessionManager ''mongodb://localhost:27017/whatsapp''
       ((test_config ''s'' 3)\<lparr>opt_collectionName := Some ''whatsapp_sessions''\<rparr>)
     = Inr ((test_manager ''s'' 3)\<lparr>config :=
              (config (test_manager ''s'' 3))\<lparr>collectionName := ''whatsapp_sessions''\<rparr>\<rparr>)"
    by (simp add: newMongoSessionManager_def test_config_def test_manager_def resolveConfig_def
        isValidSessionId_def isValidCollectionName_def identifier_chars_def startsWith_def
        or_string_def or_int_def or_bool_def)
  have ne: "(test_manager ''s'' 3)\<lparr>config :=
              (config (test_manager ''s'' 3))\<lparr>collectionName := ''whatsapp_sessions''\<rparr>\<rparr>
     \<noteq> test_manager ''s'' 3"
    by (simp add: test_manager_def test_config_def resolveConfig_def or_string_def manager.equality)
  from collectionName_unused [OF c1 c2] c1 c2 ne show ?thesis
    by (intro conjI)
qed

end
